theory Spec2Isabelle
  imports Complex_Main "HOL-Library.Word"
begin

section \<open>JavaScript values used by the program\<close>

text \<open>
  A JavaScript string is a sequence of UTF-16 code units: \<open>length\<close>, \<open>slice\<close> and
  \<open>trim\<close> all count and cut code units. String literals of the source are ASCII and are
  written through \<open>js\<close>.
\<close>

type_synonym jsstring = "16 word list"

definition js :: "string \<Rightarrow> jsstring" where
  "js s = map (\<lambda>c. of_nat (of_char c)) s"

text \<open>
  The code units removed by \<open>String.prototype.trim\<close>: ECMAScript WhiteSpace and
  LineTerminator.
\<close>

definition isTrimmable :: "16 word \<Rightarrow> bool" where
  "isTrimmable c \<longleftrightarrow>
     c \<in> {0x0009, 0x000A, 0x000B, 0x000C, 0x000D, 0x0020, 0x00A0, 0x1680,
          0x2028, 0x2029, 0x202F, 0x205F, 0x3000, 0xFEFF}
     \<or> (0x2000 \<le> c \<and> c \<le> 0x200A)"

definition trim :: "jsstring \<Rightarrow> jsstring" where
  "trim s = rev (dropWhile isTrimmable (rev (dropWhile isTrimmable s)))"

text \<open>\<open>s.slice(0, n)\<close> for a non-negative \<open>n\<close>.\<close>

definition slice0 :: "nat \<Rightarrow> jsstring \<Rightarrow> jsstring" where
  "slice0 n s = take n s"

text \<open>
  \<open>a || b\<close> on optional strings: \<open>undefined\<close>, \<open>null\<close> and the empty string are falsy.
  \<open>orDefault a d\<close> is \<open>a || d\<close> for a string \<open>d\<close>, and \<open>orEmpty a\<close> is \<open>a || ""\<close>.
\<close>

definition orElse :: "jsstring option \<Rightarrow> jsstring option \<Rightarrow> jsstring option" where
  "orElse a b = (case a of None \<Rightarrow> b | Some s \<Rightarrow> if s = [] then b else Some s)"

definition orDefault :: "jsstring option \<Rightarrow> jsstring \<Rightarrow> jsstring" where
  "orDefault a d = (case a of None \<Rightarrow> d | Some s \<Rightarrow> if s = [] then d else s)"

definition orEmpty :: "jsstring option \<Rightarrow> jsstring" where
  "orEmpty a = orDefault a []"

text \<open>
  The values \<open>JSON.parse\<close> produces. An object is the list of its own properties, each key
  once.
\<close>

datatype json =
    JNull
  | JBool bool
  | JNum real
  | JStr jsstring
  | JArr "json list"
  | JObj "(jsstring \<times> json) list"

text \<open>
  Reading a property \<open>v.k\<close> for a key no prototype defines: on \<open>null\<close> it throws a
  TypeError (\<open>None\<close>); on an object it is the own property or \<open>undefined\<close>; on every other
  value it is \<open>undefined\<close> (\<open>Some None\<close>).
\<close>

fun getProp :: "json \<Rightarrow> jsstring \<Rightarrow> json option option" where
  "getProp JNull k = None"
| "getProp (JObj kvs) k = Some (map_of kvs k)"
| "getProp v k = Some None"

text \<open>\<open>Boolean(v)\<close>, with \<open>None\<close> for \<open>undefined\<close>.\<close>

fun toBoolean :: "json option \<Rightarrow> bool" where
  "toBoolean None = False"
| "toBoolean (Some JNull) = False"
| "toBoolean (Some (JBool b)) = b"
| "toBoolean (Some (JNum x)) = (x \<noteq> 0)"
| "toBoolean (Some (JStr s)) = (s \<noteq> [])"
| "toBoolean (Some (JArr xs)) = True"
| "toBoolean (Some (JObj kvs)) = True"

section \<open>The relay endpoints\<close>

datatype LanguageOption = LangAuto | LangEn | LangJa | LangKo

datatype Mode = Partial | Committed

datatype DetectedLanguage = DetEn | DetJa | DetKo | DetOther

text \<open>The request body; \<open>reqText\<close> is its field \<open>text\<close>.\<close>

record TranslateRequestBody =
  sourceLang :: LanguageOption
  targetLang :: LanguageOption
  reqText :: "jsstring option"
  mode :: "Mode option"
  updateSummary :: "bool option"
  summary :: "jsstring option"
  recent :: "jsstring list option"

record TranslateResponseBody =
  detectedLanguage :: DetectedLanguage
  shouldIgnore :: bool
  translation :: jsstring
  updatedSummary :: jsstring

text \<open>
  What a handler hands to \<open>NextResponse.json\<close>: an error object (\<open>error\<close>, and where the
  source sets them \<open>status\<close>, \<open>details\<close>, \<open>raw\<close>), a translation, or a token.
\<close>

datatype ResponseBody =
    ErrorBody jsstring "nat option" "jsstring option" "jsstring option"
  | TranslateBody TranslateResponseBody
  | TokenBody jsstring

text \<open>
  A handler either returns a response with an HTTP status, or an exception escapes it
  (\<open>Unhandled\<close>).
\<close>

datatype Outcome = Responded nat ResponseBody | Unhandled

record Env =
  OPENAI_API_KEY :: "jsstring option"
  OPENAI_MODEL :: "jsstring option"
  OPENAI_MODEL_PARTIAL :: "jsstring option"
  ELEVENLABS_API_KEY :: "jsstring option"

text \<open>
  A request: \<open>headers.get\<close> as a partial map, and the body as \<open>req.json()\<close> reads it at the
  handler's type (\<open>None\<close> when \<open>req.json()\<close> throws).
\<close>

record 'b Request =
  headers :: "jsstring \<rightharpoonup> jsstring"
  body :: "'b option"

definition getOpenAIKey :: "Env \<Rightarrow> 'b Request \<Rightarrow> jsstring option" where
  "getOpenAIKey e req =
     (let headerKey = map_option trim (headers req (js ''x-openai-api-key''))
      in orElse (OPENAI_API_KEY e) (orElse headerKey None))"

text \<open>
  The upstream chat-completion call: the bearer key, the model, the temperature, the mode
  (it selects the instruction that precedes the payload) and the fields of the JSON payload
  in the user message.
\<close>

record ChatCall =
  bearer :: jsstring
  model :: jsstring
  temperature :: real
  callMode :: Mode
  c_sourceLang :: LanguageOption
  c_targetLang :: LanguageOption
  c_text :: jsstring
  c_updateSummary :: bool
  c_summary :: jsstring
  c_recent :: "jsstring list"

text \<open>
  What the upstream call gives the handler: \<open>fetch\<close> rejects; a non-2xx status with the
  body text (empty when reading it fails); a 2xx body that \<open>resp.json()\<close> cannot read; or
  a 2xx JSON body, of which the handler reads \<open>choices?.[0]?.message?.content\<close>
  (\<open>None\<close> when that is \<open>undefined\<close>, \<open>null\<close> or not a string).
\<close>

datatype Upstream =
    FetchRejects
  | NotOk nat jsstring
  | BodyUnreadable
  | Completion "jsstring option"

definition translateCall :: "Env \<Rightarrow> jsstring \<Rightarrow> TranslateRequestBody \<Rightarrow> jsstring \<Rightarrow> ChatCall" where
  "translateCall e apiKey payload txt =
     (let m = (if mode payload = Some Partial then Partial else Committed);
          upd = (case updateSummary payload of None \<Rightarrow> False | Some b \<Rightarrow> b)
      in \<lparr> bearer = apiKey,
           model = (if m = Partial
                    then orDefault (OPENAI_MODEL_PARTIAL e) (js ''gpt-4.1-nano'')
                    else orDefault (OPENAI_MODEL e) (js ''gpt-4.1-mini'')),
           temperature = (if m = Partial then 1 / 10 else 2 / 10),
           callMode = m,
           c_sourceLang = sourceLang payload,
           c_targetLang = targetLang payload,
           c_text = txt,
           c_updateSummary = upd,
           c_summary = orEmpty (summary payload),
           c_recent = (case recent payload of None \<Rightarrow> [] | Some r \<Rightarrow> r) \<rparr>)"

text \<open>The guardrails applied to the parsed model output.\<close>

definition normalize :: "TranslateRequestBody \<Rightarrow> json \<Rightarrow> TranslateResponseBody option" where
  "normalize payload parsed =
     (case getProp parsed (js ''detectedLanguage'') of
        None \<Rightarrow> None
      | Some dl \<Rightarrow>
     (case getProp parsed (js ''shouldIgnore'') of
        None \<Rightarrow> None
      | Some si \<Rightarrow>
     (case getProp parsed (js ''translation'') of
        None \<Rightarrow> None
      | Some tr \<Rightarrow>
     (case getProp parsed (js ''updatedSummary'') of
        None \<Rightarrow> None
      | Some us \<Rightarrow>
        Some \<lparr> detectedLanguage =
                 (if dl = Some (JStr (js ''en'')) then DetEn
                  else if dl = Some (JStr (js ''ja'')) then DetJa
                  else if dl = Some (JStr (js ''ko'')) then DetKo
                  else DetOther),
               shouldIgnore = toBoolean si,
               translation = (case tr of Some (JStr s) \<Rightarrow> s | _ \<Rightarrow> []),
               updatedSummary =
                 (case us of Some (JStr s) \<Rightarrow> slice0 800 s
                  | _ \<Rightarrow> slice0 800 (orEmpty (summary payload))) \<rparr>))))"

text \<open>
  The translate handler up to the upstream call: an early response, or the parsed payload
  together with the call that \<open>fetch\<close> is given.
\<close>

definition translatePrepare ::
  "Env \<Rightarrow> TranslateRequestBody Request \<Rightarrow> Outcome + TranslateRequestBody \<times> ChatCall" where
  "translatePrepare e req =
     (case getOpenAIKey e req of
        None \<Rightarrow> Inl (Responded 500 (ErrorBody (js ''Missing OPENAI_API_KEY.'') None None None))
      | Some apiKey \<Rightarrow>
     (case body req of
        None \<Rightarrow> Inl (Responded 400 (ErrorBody (js ''Invalid JSON body.'') None None None))
      | Some payload \<Rightarrow>
        let txt = trim (orEmpty (reqText payload)) in
        if txt = [] then
          Inl (Responded 200 (TranslateBody
            \<lparr> detectedLanguage = DetOther, shouldIgnore = False, translation = [],
              updatedSummary = orEmpty (summary payload) \<rparr>))
        else Inr (payload, translateCall e apiKey payload txt)))"

text \<open>
  The rest of the handler, from the upstream result on. \<open>JSON.parse\<close> is the runtime's: it
  is a parameter, \<open>parse\<close>, giving \<open>None\<close> where \<open>JSON.parse\<close> throws.
\<close>

definition translateFinish ::
  "(jsstring \<Rightarrow> json option) \<Rightarrow> TranslateRequestBody \<Rightarrow> Upstream \<Rightarrow> Outcome" where
  "translateFinish parse payload up =
     (case up of
        FetchRejects \<Rightarrow> Unhandled
      | NotOk st details \<Rightarrow>
          Responded 502 (ErrorBody (js ''Translation request failed.'') (Some st)
            (if details = [] then None else Some details) None)
      | BodyUnreadable \<Rightarrow> Unhandled
      | Completion c \<Rightarrow>
     (case orElse c None of
        None \<Rightarrow> Responded 502 (ErrorBody (js ''Model response missing content.'') None None None)
      | Some content \<Rightarrow>
     (case parse content of
        None \<Rightarrow>
          Responded 502 (ErrorBody (js ''Model response was not valid JSON.'') None None
            (Some content))
      | Some parsed \<Rightarrow>
     (case normalize payload parsed of
        None \<Rightarrow> Unhandled
      | Some out \<Rightarrow> Responded 200 (TranslateBody out)))))"

text \<open>The whole handler; \<open>fetch\<close> is the network's and a parameter too.\<close>

definition translatePOST ::
  "Env \<Rightarrow> (jsstring \<Rightarrow> json option) \<Rightarrow> (ChatCall \<Rightarrow> Upstream) \<Rightarrow>
   TranslateRequestBody Request \<Rightarrow> Outcome" where
  "translatePOST e parse fetch req =
     (case translatePrepare e req of
        Inl out \<Rightarrow> out
      | Inr (payload, call) \<Rightarrow> translateFinish parse payload (fetch call))"

text \<open>The key the translate handler's upstream call carries, when it makes one.\<close>

definition translateKeyUsed :: "Env \<Rightarrow> TranslateRequestBody Request \<Rightarrow> jsstring option" where
  "translateKeyUsed e req =
     (case translatePrepare e req of Inl out \<Rightarrow> None | Inr (payload, call) \<Rightarrow> Some (bearer call))"

text \<open>
  The token-mint handler (\<open>GET\<close> and \<open>POST\<close> have the same body). The upstream call carries
  only the key (\<open>xi-api-key\<close>); its result is a rejected \<open>fetch\<close>, a non-2xx status with the
  body text, an unreadable body, or the \<open>token\<close> field of the JSON body.
\<close>

datatype MintUpstream =
    MintRejects
  | MintNotOk nat jsstring
  | MintUnreadable
  | Minted "jsstring option"

definition getElevenLabsKey :: "Env \<Rightarrow> 'b Request \<Rightarrow> jsstring option" where
  "getElevenLabsKey e req =
     (let headerKey = map_option trim (headers req (js ''x-elevenlabs-api-key''))
      in orElse (ELEVENLABS_API_KEY e) headerKey)"

text \<open>The handler up to the upstream call: an early response, or the key the call carries.\<close>

definition scribeTokenPrepare :: "Env \<Rightarrow> unit Request \<Rightarrow> Outcome + jsstring" where
  "scribeTokenPrepare e req =
     (case orElse (getElevenLabsKey e req) None of
        None \<Rightarrow> Inl (Responded 500 (ErrorBody (js ''Missing ELEVENLABS_API_KEY.'') None None None))
      | Some apiKey \<Rightarrow> Inr apiKey)"

definition scribeTokenFinish :: "MintUpstream \<Rightarrow> Outcome" where
  "scribeTokenFinish up =
     (case up of
        MintRejects \<Rightarrow> Unhandled
      | MintNotOk st txt \<Rightarrow>
          Responded 502 (ErrorBody (js ''Failed to mint ElevenLabs token.'') (Some st)
            (if txt = [] then None else Some txt) None)
      | MintUnreadable \<Rightarrow> Unhandled
      | Minted tok \<Rightarrow>
     (case orElse tok None of
        None \<Rightarrow>
          Responded 502 (ErrorBody (js ''ElevenLabs response missing token.'') None None None)
      | Some t \<Rightarrow> Responded 200 (TokenBody t)))"

definition scribeTokenPOST :: "Env \<Rightarrow> (jsstring \<Rightarrow> MintUpstream) \<Rightarrow> unit Request \<Rightarrow> Outcome" where
  "scribeTokenPOST e fetch req =
     (case scribeTokenPrepare e req of
        Inl out \<Rightarrow> out
      | Inr apiKey \<Rightarrow> scribeTokenFinish (fetch apiKey))"

section \<open>The transcription hook\<close>

datatype Kind = KindPartial | KindCommitted

text \<open>A transcript line; \<open>lineId\<close> and \<open>lineText\<close> are the fields \<open>id\<close> and \<open>text\<close>.\<close>

record TranscriptLine =
  lineId :: jsstring
  lineText :: jsstring
  createdAt :: nat
  kind :: Kind

text \<open>The decimal digits of a clock reading, as a template literal prints it.\<close>

function decimal :: "nat \<Rightarrow> jsstring" where
  "decimal n = (if n < 10 then [of_nat (48 + n)]
                else decimal (n div 10) @ [of_nat (48 + n mod 10)])"
  by pat_completeness auto
termination
  by (relation "measure (\<lambda>n. n)") auto

record Scribe =
  isConnected :: bool
  isConnecting :: bool
  lastError :: "jsstring option"
  partialTranscript :: jsstring
  committed :: "TranscriptLine list"

definition onPartialTranscript :: "jsstring option \<Rightarrow> Scribe \<Rightarrow> Scribe" where
  "onPartialTranscript dataText st = st\<lparr>partialTranscript := orEmpty dataText\<rparr>"

text \<open>
  The handler of \<open>COMMITTED_TRANSCRIPT\<close>. The environment supplies the two readings of
  \<open>Date.now()\<close> (one inside the id, one for \<open>createdAt\<close>) and the hexadecimal digits
  \<open>Math.random().toString(16).slice(2)\<close>.
\<close>

definition onCommittedTranscript ::
  "nat \<Rightarrow> jsstring \<Rightarrow> nat \<Rightarrow> jsstring option \<Rightarrow> Scribe \<Rightarrow> Scribe" where
  "onCommittedTranscript now1 rnd now2 dataText st =
     (let txt = trim (orEmpty dataText) in
      if txt = [] then st
      else st\<lparr>committed := committed st @
                  [\<lparr> lineId = decimal now1 @ js ''-'' @ rnd, lineText = txt,
                     createdAt = now2, kind = KindCommitted \<rparr>],
              partialTranscript := []\<rparr>)"

subsection \<open>Resampling\<close>

text \<open>
  The length of the \<open>Int16Array\<close> that \<open>downsampleFloat32ToInt16PCM\<close> allocates and returns
  for an input of \<open>n\<close> samples: \<open>input.length\<close> on the pass-through path, \<open>newLength\<close>
  otherwise. \<open>Math.round\<close> rounds halves up, as \<open>round\<close> does. The quotients are exact
  here; at the rates 48000 and 16000 the doubles of the source agree with them (the ratio
  is exactly 3, and a correctly rounded \<open>n / 3\<close> lies on the same side of every half as
  the exact quotient). The sample values themselves are double arithmetic and are not part
  of the model.
\<close>

definition downsampleLength :: "nat \<Rightarrow> real \<Rightarrow> real \<Rightarrow> nat" where
  "downsampleLength n inputSampleRate outputSampleRate =
     (if outputSampleRate = inputSampleRate then n
      else let ratio = inputSampleRate / outputSampleRate
           in nat (max 1 (round (real n / ratio))))"

text \<open>
  The whole function. A JavaScript number is \<open>NaN\<close>, an infinity or a finite double, given
  by its real value (the two zeros are one value: the function converts either to the
  sample 0 and never divides by a zero that could be negative). The samples of a
  \<open>Float32Array\<close> are such numbers.
\<close>

datatype number = NaN | NegInf | Fin real | PosInf

text \<open>The exception \<open>new Int16Array\<close> can throw.\<close>

datatype JsError = RangeError

text \<open>The comparisons \<open><\<close>, \<open><=\<close> and \<open>===\<close>: false whenever an operand is \<open>NaN\<close>.\<close>

fun isInfinite :: "number \<Rightarrow> bool" where
  "isInfinite NegInf = True"
| "isInfinite PosInf = True"
| "isInfinite v = False"

fun isNegative :: "number \<Rightarrow> bool" where
  "isNegative NegInf = True"
| "isNegative (Fin x) = (x < 0)"
| "isNegative v = False"

fun numLt :: "number \<Rightarrow> number \<Rightarrow> bool" where
  "numLt NaN b = False"
| "numLt a NaN = False"
| "numLt PosInf b = False"
| "numLt a NegInf = False"
| "numLt NegInf b = True"
| "numLt a PosInf = True"
| "numLt (Fin x) (Fin y) = (x < y)"


definition numEq :: "number \<Rightarrow> number \<Rightarrow> bool" where
  "numEq a b \<longleftrightarrow> a \<noteq> NaN \<and> b \<noteq> NaN \<and> a = b"

text \<open>
  Arithmetic. An operation on finite operands rounds its exact result to a double; that
  rounding is the parameter \<open>rd\<close> (it gives an infinity on overflow). The other cases are
  those of IEEE 754.
\<close>

fun numNeg :: "number \<Rightarrow> number" where
  "numNeg NaN = NaN"
| "numNeg NegInf = PosInf"
| "numNeg PosInf = NegInf"
| "numNeg (Fin x) = Fin (- x)"

fun numAdd :: "(real \<Rightarrow> number) \<Rightarrow> number \<Rightarrow> number \<Rightarrow> number" where
  "numAdd rd NaN b = NaN"
| "numAdd rd a NaN = NaN"
| "numAdd rd PosInf NegInf = NaN"
| "numAdd rd NegInf PosInf = NaN"
| "numAdd rd PosInf b = PosInf"
| "numAdd rd a PosInf = PosInf"
| "numAdd rd NegInf b = NegInf"
| "numAdd rd a NegInf = NegInf"
| "numAdd rd (Fin x) (Fin y) = rd (x + y)"

definition numSub :: "(real \<Rightarrow> number) \<Rightarrow> number \<Rightarrow> number \<Rightarrow> number" where
  "numSub rd a b = numAdd rd a (numNeg b)"

definition signedInfinity :: "number \<Rightarrow> number \<Rightarrow> number" where
  "signedInfinity a b = (if isNegative a \<noteq> isNegative b then NegInf else PosInf)"

fun numMul :: "(real \<Rightarrow> number) \<Rightarrow> number \<Rightarrow> number \<Rightarrow> number" where
  "numMul rd NaN b = NaN"
| "numMul rd a NaN = NaN"
| "numMul rd (Fin x) (Fin y) = rd (x * y)"
| "numMul rd a b = (if a = Fin 0 \<or> b = Fin 0 then NaN else signedInfinity a b)"

fun numDiv :: "(real \<Rightarrow> number) \<Rightarrow> number \<Rightarrow> number \<Rightarrow> number" where
  "numDiv rd NaN b = NaN"
| "numDiv rd a NaN = NaN"
| "numDiv rd (Fin x) (Fin y) =
     (if y = 0 then (if x = 0 then NaN else if x < 0 then NegInf else PosInf) else rd (x / y))"
| "numDiv rd (Fin x) b = Fin 0"
| "numDiv rd a (Fin y) = signedInfinity a (Fin y)"
| "numDiv rd a b = NaN"

text \<open>
  \<open>Math.min\<close>, \<open>Math.max\<close>, \<open>Math.round\<close> and \<open>Math.floor\<close>; none of them rounds to a
  double.
\<close>

definition mathMin :: "number \<Rightarrow> number \<Rightarrow> number" where
  "mathMin a b = (if a = NaN \<or> b = NaN then NaN else if numLt b a then b else a)"

definition mathMax :: "number \<Rightarrow> number \<Rightarrow> number" where
  "mathMax a b = (if a = NaN \<or> b = NaN then NaN else if numLt a b then b else a)"

fun mathRound :: "number \<Rightarrow> number" where
  "mathRound (Fin x) = Fin (of_int (round x))"
| "mathRound v = v"

fun mathFloor :: "number \<Rightarrow> number" where
  "mathFloor (Fin x) = Fin (of_int \<lfloor>x\<rfloor>)"
| "mathFloor v = v"

text \<open>Truncation towards zero, as \<open>ToIntegerOrInfinity\<close> and \<open>ToInt16\<close> do.\<close>

definition truncToZero :: "real \<Rightarrow> int" where
  "truncToZero x = (if 0 \<le> x then \<lfloor>x\<rfloor> else \<lceil>x\<rceil>)"

text \<open>
  \<open>new Int16Array(v)\<close>: the length of the new array, or a \<open>RangeError\<close>. \<open>ToIndex\<close> takes
  \<open>NaN\<close> to 0 and refuses an infinity, a negative integer and an integer above
  \<open>2 ^ 53 - 1\<close>; the allocation fails above \<open>maxLen\<close>, the largest length the runtime
  allocates.
\<close>

fun newInt16Array :: "nat \<Rightarrow> number \<Rightarrow> JsError + nat" where
  "newInt16Array maxLen NaN = Inr 0"
| "newInt16Array maxLen (Fin x) =
     (if truncToZero x < 0 \<or> 2 ^ 53 - 1 < truncToZero x \<or> int maxLen < truncToZero x
      then Inl RangeError else Inr (nat (truncToZero x)))"
| "newInt16Array maxLen v = Inl RangeError"

text \<open>
  Storing a number in an \<open>Int16Array\<close>: \<open>NaN\<close> and the infinities become 0, a finite value
  is truncated and wraps modulo \<open>2 ^ 16\<close>.
\<close>

fun toInt16 :: "number \<Rightarrow> 16 word" where
  "toInt16 (Fin x) = word_of_int (truncToZero x)"
| "toInt16 v = 0"

text \<open>
  \<open>input[v]\<close>: the element at an integer index within the array, \<open>undefined\<close> (\<open>None\<close>)
  for every other number.
\<close>

fun elementAt :: "number list \<Rightarrow> number \<Rightarrow> number option" where
  "elementAt input (Fin x) =
     (if 0 \<le> x \<and> x = of_int \<lfloor>x\<rfloor> \<and> nat \<lfloor>x\<rfloor> < length input
      then Some (input ! nat \<lfloor>x\<rfloor>) else None)"
| "elementAt input v = None"

text \<open>The clamp to \<open>[-1, 1]\<close> and the scaling by \<open>0x8000\<close> or \<open>0x7fff\<close>.\<close>

definition scaleSample :: "(real \<Rightarrow> number) \<Rightarrow> number \<Rightarrow> number" where
  "scaleSample rd s =
     (let clamped = mathMax (Fin (- 1)) (mathMin (Fin 1) s)
      in if numLt clamped (Fin 0) then numMul rd clamped (Fin 32768)
         else numMul rd clamped (Fin 32767))"

text \<open>The length the function asks \<open>new Int16Array\<close> for.\<close>

definition requestedLength :: "(real \<Rightarrow> number) \<Rightarrow> nat \<Rightarrow> number \<Rightarrow> number \<Rightarrow> number" where
  "requestedLength rd n inputSampleRate outputSampleRate =
     (if numEq outputSampleRate inputSampleRate then Fin (real n)
      else let ratio = numDiv rd inputSampleRate outputSampleRate
           in mathMax (Fin 1) (mathRound (numDiv rd (Fin (real n)) ratio)))"

text \<open>The number the loop assigns to \<open>out[i]\<close>, on either path.\<close>

definition scaledAt ::
  "(real \<Rightarrow> number) \<Rightarrow> number list \<Rightarrow> number \<Rightarrow> number \<Rightarrow> nat \<Rightarrow> number" where
  "scaledAt rd input inputSampleRate outputSampleRate i =
     (if numEq outputSampleRate inputSampleRate then
        scaleSample rd (case elementAt input (Fin (real i)) of None \<Rightarrow> Fin 0 | Some v \<Rightarrow> v)
      else
        let ratio = numDiv rd inputSampleRate outputSampleRate;
            pos = numMul rd (Fin (real i)) ratio;
            idx = mathFloor pos;
            frac = numSub rd pos idx;
            s0 = (case elementAt input idx of None \<Rightarrow> Fin 0 | Some v \<Rightarrow> v);
            s1 = (case elementAt input (numAdd rd idx (Fin 1)) of None \<Rightarrow> s0 | Some v \<Rightarrow> v);
            sample = numAdd rd s0 (numMul rd (numSub rd s1 s0) frac)
        in scaleSample rd sample)"

text \<open>
  The function: the array is allocated, and the loop fills \<open>out[i]\<close> for every \<open>i\<close> below
  its length.
\<close>

definition downsampleFloat32ToInt16PCM ::
  "(real \<Rightarrow> number) \<Rightarrow> nat \<Rightarrow> number list \<Rightarrow> number \<Rightarrow> number \<Rightarrow> JsError + 16 word list" where
  "downsampleFloat32ToInt16PCM rd maxLen input inputSampleRate outputSampleRate =
     (case newInt16Array maxLen
             (requestedLength rd (length input) inputSampleRate outputSampleRate) of
        Inl e \<Rightarrow> Inl e
      | Inr n \<Rightarrow>
          Inr (map (\<lambda>i. toInt16 (scaledAt rd input inputSampleRate outputSampleRate i)) [0..<n]))"



subsection \<open>The chunker\<close>

type_synonym byte = "8 word"

definition targetSampleRate :: nat where
  "targetSampleRate = 16000"

definition chunkMs :: nat where
  "chunkMs = 200"

definition bytesPerChunk :: nat where
  "bytesPerChunk = nat (round ((real targetSampleRate * (real chunkMs / 1000)) * 2))"

text \<open>\<open>xs.slice(-n)\<close> and \<open>xs.join("\n")\<close>.\<close>

definition sliceLast :: "nat \<Rightarrow> 'a list \<Rightarrow> 'a list" where
  "sliceLast n xs = drop (length xs - n) xs"

fun joinLines :: "jsstring list \<Rightarrow> jsstring" where
  "joinLines [] = []"
| "joinLines [x] = x"
| "joinLines (x # y # ys) = x @ [0x000A] @ joinLines (y # ys)"

text \<open>
  One call of \<open>connection.send\<close>: the bytes of the chunk (sent as their base64 text), the
  sample rate, and \<open>previousText\<close> where the source adds it. Whether the connection accepts
  the call is the SDK's; a call that throws is dropped by the handler.
\<close>

record Frame =
  audio :: "byte list"
  sampleRate :: nat
  previousText :: "jsstring option"

record Chunker =
  pendingBytes :: "byte list"
  firstChunk :: bool

text \<open>
  The \<open>while\<close> loop of the tap handler. \<open>lines\<close> is the committed history the handler
  closed over.
\<close>

function sendChunks :: "TranscriptLine list \<Rightarrow> Chunker \<Rightarrow> Frame list \<times> Chunker" where
  "sendChunks lines st =
     (if length (pendingBytes st) \<ge> bytesPerChunk then
        let chunk = take bytesPerChunk (pendingBytes st);
            frame = \<lparr> audio = chunk, sampleRate = targetSampleRate,
                      previousText =
                        (if firstChunk st \<and> lines \<noteq> []
                         then Some (joinLines (map lineText (sliceLast 12 lines)))
                         else None) \<rparr>;
            (frames, st') = sendChunks lines
              \<lparr> pendingBytes = drop bytesPerChunk (pendingBytes st), firstChunk = False \<rparr>
        in (frame # frames, st')
      else ([], st))"
  by pat_completeness auto
termination
  by (relation "measure (\<lambda>(lines, st). length (pendingBytes st))")
     (auto simp: bytesPerChunk_def targetSampleRate_def chunkMs_def)

text \<open>
  The tap handler from the point where the resampled block is viewed as bytes: append
  them, then send every full chunk.
\<close>

definition tapBytes :: "TranscriptLine list \<Rightarrow> byte list \<Rightarrow> Chunker \<Rightarrow> Frame list \<times> Chunker" where
  "tapBytes lines u8 st = sendChunks lines (st\<lparr>pendingBytes := pendingBytes st @ u8\<rparr>)"

text \<open>A sequence of blocks, delivered in order; the frames are collected in order.\<close>

fun tapAll :: "TranscriptLine list \<Rightarrow> byte list list \<Rightarrow> Chunker \<Rightarrow> Frame list \<times> Chunker" where
  "tapAll lines [] st = ([], st)"
| "tapAll lines (u8 # rest) st =
     (let (frames, st') = tapBytes lines u8 st;
          (frames', st'') = tapAll lines rest st'
      in (frames @ frames', st''))"

definition newChunker :: Chunker where
  "newChunker = \<lparr> pendingBytes = [], firstChunk = True \<rparr>"

section \<open>The page: translating committed segments\<close>

text \<open>
  A translated line; \<open>tId\<close>, \<open>tText\<close> and \<open>tCreatedAt\<close> are the fields \<open>id\<close>, \<open>text\<close> and
  \<open>createdAt\<close>.
\<close>

record TranslatedLine =
  tId :: jsstring
  sourceId :: jsstring
  tText :: jsstring
  tCreatedAt :: nat

text \<open>
  What the committed-translation effect reads and writes: the two language preferences,
  the committed history of the hook, the translated lines, the running summary, and the
  set held by \<open>translatedIdsRef\<close> (\<open>inputLang.value\<close>, \<open>targetLang.value\<close>,
  \<open>scribe.committed\<close>, \<open>translated\<close>, \<open>summary\<close> and \<open>translatedIdsRef.current\<close>).
\<close>

record Home =
  inputLang :: LanguageOption
  targetLangPref :: LanguageOption
  scribeCommitted :: "TranscriptLine list"
  translated :: "TranslatedLine list"
  runningSummary :: jsstring
  translatedIds :: "jsstring set"

text \<open>
  What one run of the effect leaves to run later: the microtask that mirrors the line, or
  the call of \<open>translateViaApi\<close> with its arguments and the value of
  \<open>shouldUpdateSummary\<close> its continuation closed over.
\<close>

datatype Task =
    MirrorTask TranscriptLine
  | TranslateTask TranscriptLine TranslateRequestBody bool

definition outLang :: "Home \<Rightarrow> LanguageOption" where
  "outLang h = (if targetLangPref h = LangAuto then LangEn else targetLangPref h)"

definition committedEffect :: "Home \<Rightarrow> Home \<times> Task option" where
  "committedEffect h =
     (case rev (scribeCommitted h) of
        [] \<Rightarrow> (h, None)
      | lst # _ \<Rightarrow>
        if lineId lst \<in> translatedIds h then (h, None)
        else
          let h' = h\<lparr>translatedIds := insert (lineId lst) (translatedIds h)\<rparr> in
          if inputLang h \<noteq> LangAuto \<and> inputLang h = outLang h then (h', Some (MirrorTask lst))
          else
            let shouldUpdateSummary =
                  (length (runningSummary h) = 0 \<or> length (scribeCommitted h) mod 4 = 0);
                recent = map lineText (sliceLast 8 (scribeCommitted h))
            in (h', Some (TranslateTask lst
                  \<lparr> sourceLang = inputLang h, targetLang = outLang h,
                    reqText = Some (lineText lst), mode = Some Committed,
                    updateSummary = Some shouldUpdateSummary,
                    summary = Some (runningSummary h), recent = Some recent \<rparr>
                  shouldUpdateSummary)))"

text \<open>
  Running a task. The mirror microtask appends at the clock reading \<open>now\<close>. The
  continuation of a call gets what \<open>translateViaApi\<close> resolved to, or \<open>None\<close> when it threw
  (a failed \<open>fetch\<close> or a non-2xx response), which the \<open>catch\<close> swallows.
\<close>

definition runTask :: "nat \<Rightarrow> TranslateResponseBody option \<Rightarrow> Task \<Rightarrow> Home \<Rightarrow> Home" where
  "runTask now result task h =
     (case task of
        MirrorTask lst \<Rightarrow>
          h\<lparr>translated := translated h @
               [\<lparr> tId = lineId lst @ js ''-t'', sourceId = lineId lst, tText = lineText lst,
                  tCreatedAt = now \<rparr>]\<rparr>
      | TranslateTask lst args shouldUpdateSummary \<Rightarrow>
     (case result of
        None \<Rightarrow> h
      | Some res \<Rightarrow>
        let h1 = (if shouldUpdateSummary \<and> updatedSummary res \<noteq> []
                  then h\<lparr>runningSummary := updatedSummary res\<rparr> else h);
            translatedText = trim (translation res)
        in if shouldIgnore res then h1
           else if translatedText = [] then h1
           else h1\<lparr>translated := translated h1 @
                  [\<lparr> tId = lineId lst @ js ''-t'', sourceId = lineId lst,
                     tText = translatedText, tCreatedAt = now \<rparr>]\<rparr>))"

text \<open>
  The effect run once per render, over any sequence of renders: each render brings its own
  languages, history, translated lines and summary; only the set of the ref persists from
  one run to the next. The tasks are collected in order.
\<close>

fun effectRuns :: "Home list \<Rightarrow> jsstring set \<Rightarrow> Task list \<times> jsstring set" where
  "effectRuns [] ids = ([], ids)"
| "effectRuns (h # hs) ids =
     (let (h', t) = committedEffect (h\<lparr>translatedIds := ids\<rparr>);
          (ts, ids') = effectRuns hs (translatedIds h')
      in ((case t of None \<Rightarrow> ts | Some task \<Rightarrow> task # ts), ids'))"

fun taskLine :: "Task \<Rightarrow> TranscriptLine" where
  "taskLine (MirrorTask l) = l"
| "taskLine (TranslateTask l args f) = l"

fun isRequest :: "Task \<Rightarrow> bool" where
  "isRequest (MirrorTask l) = False"
| "isRequest (TranslateTask l args f) = True"

text \<open>
  What changes the state the effect reads, besides the continuation of a request: a
  committed line arriving from the hook, the button \<open>Clear summary\<close> (\<open>setSummary("")\<close>),
  the button \<open>Clear all\<close> (a new set in the ref, \<open>setTranslated([])\<close> and
  \<open>scribe.reset()\<close>, which empties the history), and the two language selects.
\<close>

datatype PageEvent =
    LineCommitted TranscriptLine
  | ClearSummary
  | ClearAll
  | SelectInput LanguageOption
  | SelectTarget LanguageOption

fun applyEvent :: "PageEvent \<Rightarrow> Home \<Rightarrow> Home" where
  "applyEvent (LineCommitted l) h = h\<lparr>scribeCommitted := scribeCommitted h @ [l]\<rparr>"
| "applyEvent ClearSummary h = h\<lparr>runningSummary := []\<rparr>"
| "applyEvent ClearAll h = h\<lparr>translatedIds := {}, translated := [], scribeCommitted := []\<rparr>"
| "applyEvent (SelectInput lang) h = h\<lparr>inputLang := lang\<rparr>"
| "applyEvent (SelectTarget lang) h = h\<lparr>targetLangPref := lang\<rparr>"

text \<open>
  A run of the page in which every request is settled before the next event: the event
  changes the state, the effect runs on the render that follows, the task it leaves (if
  any) is settled at the clock reading and with the result that come with the event, and
  the effect runs again on the render that follows the state change. Each step records the
  tasks of both runs of the effect.
\<close>

fun pageRun :: "(PageEvent \<times> nat \<times> TranslateResponseBody option) list \<Rightarrow> Home \<Rightarrow> Task list" where
  "pageRun [] h = []"
| "pageRun ((ev, now, result) # rest) h =
     (let (h1, t1) = committedEffect (applyEvent ev h);
          h2 = (case t1 of None \<Rightarrow> h1 | Some task \<Rightarrow> runTask now result task h1);
          (h3, t2) = committedEffect h2
      in (case t1 of None \<Rightarrow> [] | Some task \<Rightarrow> [task]) @
         (case t2 of None \<Rightarrow> [] | Some task \<Rightarrow> [task]) @ pageRun rest h3)"

text \<open>The step of a run in which a committed line arrives.\<close>

definition lineStep ::
  "TranscriptLine \<times> nat \<times> TranslateResponseBody option \<Rightarrow>
   PageEvent \<times> nat \<times> TranslateResponseBody option" where
  "lineStep s = (LineCommitted (fst s), snd s)"

fun updateFlag :: "Task \<Rightarrow> bool option" where
  "updateFlag (MirrorTask l) = None"
| "updateFlag (TranslateTask l args f) = updateSummary args"

definition newHome :: "LanguageOption \<Rightarrow> LanguageOption \<Rightarrow> Home" where
  "newHome inL outL =
     \<lparr> inputLang = inL, targetLangPref = outL, scribeCommitted = [], translated = [],
       runningSummary = [], translatedIds = {} \<rparr>"

section \<open>Concrete inputs\<close>

text \<open>
  A parser that agrees with \<open>JSON.parse\<close> on the text \<open>{}\<close> and rejects every other text
  it is asked about here (\<open>hello\<close> is not JSON).
\<close>

definition parseEmptyObject :: "jsstring \<Rightarrow> json option" where
  "parseEmptyObject s = (if s = js ''{}'' then Some (JObj []) else None)"

definition completesEmptyObject :: "ChatCall \<Rightarrow> Upstream" where
  "completesEmptyObject call = Completion (Some (js ''{}''))"

definition completesPlainText :: "ChatCall \<Rightarrow> Upstream" where
  "completesPlainText call = Completion (Some (js ''hello''))"

definition exampleEnv :: Env where
  "exampleEnv = \<lparr> OPENAI_API_KEY = Some (js ''sk-env''), OPENAI_MODEL = None,
     OPENAI_MODEL_PARTIAL = None, ELEVENLABS_API_KEY = Some (js ''el-env'') \<rparr>"

definition emptyEnv :: Env where
  "emptyEnv = \<lparr> OPENAI_API_KEY = None, OPENAI_MODEL = None,
     OPENAI_MODEL_PARTIAL = None, ELEVENLABS_API_KEY = None \<rparr>"

definition examplePayload :: TranslateRequestBody where
  "examplePayload = \<lparr> sourceLang = LangAuto, targetLang = LangEn, reqText = Some (js ''hi''),
     mode = Some Committed, updateSummary = Some True, summary = Some [], recent = Some [] \<rparr>"

definition exampleRequest :: "TranslateRequestBody Request" where
  "exampleRequest = \<lparr> headers = [js ''x-openai-api-key'' \<mapsto> js ''sk-header''],
     body = Some examplePayload \<rparr>"

definition exampleMintRequest :: "unit Request" where
  "exampleMintRequest = \<lparr> headers = [js ''x-elevenlabs-api-key'' \<mapsto> js ''el-header''],
     body = None \<rparr>"

definition exampleScribe :: Scribe where
  "exampleScribe = \<lparr> isConnected = True, isConnecting = False, lastError = None,
     partialTranscript = js ''hel'', committed = [] \<rparr>"

definition exampleLine :: "nat \<Rightarrow> TranscriptLine" where
  "exampleLine n = \<lparr> lineId = decimal n @ js ''-a'', lineText = js ''Hello'', createdAt = n,
     kind = KindCommitted \<rparr>"

definition exampleReply :: TranslateResponseBody where
  "exampleReply = \<lparr> detectedLanguage = DetKo, shouldIgnore = False, translation = js ''Hi'',
     updatedSummary = js ''greeting'' \<rparr>"

definition exampleSteps :: "(TranscriptLine \<times> nat \<times> TranslateResponseBody option) list" where
  "exampleSteps = map (\<lambda>n. (exampleLine n, n, Some exampleReply)) [1, 2, 3, 4, 5]"

definition exampleHome :: "LanguageOption \<Rightarrow> Home" where
  "exampleHome l = (newHome l LangEn)\<lparr>scribeCommitted := [exampleLine 1]\<rparr>"


section \<open>Properties of the relay endpoints\<close>

lemmas route_defs = translatePOST_def translatePrepare_def translateFinish_def getOpenAIKey_def
  translateCall_def normalize_def orElse_def orEmpty_def orDefault_def trim_def isTrimmable_def
  slice0_def js_def Let_def scribeTokenPrepare_def getElevenLabsKey_def translateKeyUsed_def

lemmas example_defs = exampleEnv_def emptyEnv_def examplePayload_def exampleRequest_def
  exampleMintRequest_def parseEmptyObject_def completesEmptyObject_def completesPlainText_def

text \<open>
  C1 as stated fails: content that parses to an object without a \<open>translation\<close> field is
  answered with status 200 and an empty translation.
\<close>

theorem missing_translation_counterexample:
  "parseEmptyObject (js ''{}'') = Some (JObj []) \<and>
   map_of [] (js ''translation'') = (None :: json option) \<and>
   translatePOST exampleEnv parseEmptyObject completesEmptyObject exampleRequest
   = Responded 200 (TranslateBody \<lparr> detectedLanguage = DetOther, shouldIgnore = False,
       translation = [], updatedSummary = [] \<rparr>)"
  by (simp add: route_defs example_defs)

text \<open>
  C1, amended. When the upstream call completes and the message content is absent or
  empty, or is not valid JSON, the translate endpoint answers 502 with an error body. When
  the content parses to a JSON object that has no \<open>translation\<close> field, the endpoint
  answers 200 and the translation is the empty string.
\<close>

theorem malformed_upstream_response:
  assumes "translatePrepare e req = Inr (payload, call)" and "fetch call = Completion c"
  shows "(c = None \<or> c = Some [] \<longrightarrow>
           translatePOST e parse fetch req =
             Responded 502 (ErrorBody (js ''Model response missing content.'') None None None))
       \<and> (c = Some s \<and> s \<noteq> [] \<and> parse s = None \<longrightarrow>
           translatePOST e parse fetch req =
             Responded 502 (ErrorBody (js ''Model response was not valid JSON.'') None None (Some s)))
       \<and> (c = Some s \<and> s \<noteq> [] \<and> parse s = Some (JObj kvs) \<and> map_of kvs (js ''translation'') = None \<longrightarrow>
           (\<exists>out. translatePOST e parse fetch req = Responded 200 (TranslateBody out)
                  \<and> translation out = []))"
  using assms
  by (auto simp: translatePOST_def translateFinish_def orElse_def normalize_def)

theorem malformed_upstream_response_witness:
  "translatePOST exampleEnv parseEmptyObject completesPlainText exampleRequest =
     Responded 502 (ErrorBody (js ''Model response was not valid JSON.'') None None (Some (js ''hello'')))
   \<and> (\<exists>out. translatePOST exampleEnv parseEmptyObject completesEmptyObject exampleRequest =
          Responded 200 (TranslateBody out) \<and> translation out = [])"
proof -
  let ?call = "translateCall exampleEnv (js ''sk-env'') examplePayload (js ''hi'')"
  have prep: "translatePrepare exampleEnv exampleRequest = Inr (examplePayload, ?call)"
    by (simp add: route_defs example_defs)
  have f1: "completesPlainText ?call = Completion (Some (js ''hello''))"
    by (simp add: completesPlainText_def)
  have f2: "completesEmptyObject ?call = Completion (Some (js ''{}''))"
    by (simp add: completesEmptyObject_def)
  have p1: "parseEmptyObject (js ''hello'') = None"
    by (simp add: parseEmptyObject_def js_def)
  have p2: "parseEmptyObject (js ''{}'') = Some (JObj [])"
    by (simp add: parseEmptyObject_def)
  have n1: "js ''hello'' \<noteq> []" and n2: "js ''{}'' \<noteq> []"
    by (simp_all add: js_def)
  from malformed_upstream_response[where fetch = completesPlainText and parse = parseEmptyObject
      and s = "js ''hello''", OF prep f1] p1 n1
  have a: "translatePOST exampleEnv parseEmptyObject completesPlainText exampleRequest =
     Responded 502 (ErrorBody (js ''Model response was not valid JSON.'') None None (Some (js ''hello'')))"
    by simp
  from malformed_upstream_response[where fetch = completesEmptyObject and parse = parseEmptyObject
      and s = "js ''{}''" and kvs = "[]", OF prep f2] p2 n2
  have b: "\<exists>out. translatePOST exampleEnv parseEmptyObject completesEmptyObject exampleRequest =
          Responded 200 (TranslateBody out) \<and> translation out = []"
    by simp
  from a b show ?thesis by simp
qed

text \<open>
  C2 (every 200 response has an \<open>updatedSummary\<close> of at most 800 code units) fails on the
  empty-text path: a request with empty text and a summary of 801 code units is answered
  with status 200 and the summary echoed whole, whatever the parser and the network are.
\<close>

theorem empty_text_echoes_summary_unclamped:
  "translatePOST exampleEnv parse fetch
     \<lparr> headers = Map.empty,
       body = Some (examplePayload\<lparr>reqText := Some [], summary := Some (replicate 801 0x61)\<rparr>) \<rparr>
   = Responded 200 (TranslateBody \<lparr> detectedLanguage = DetOther, shouldIgnore = False,
       translation = [], updatedSummary = replicate 801 0x61 \<rparr>)
   \<and> length (replicate 801 (0x61 :: 16 word)) = 801"
  by (simp add: route_defs example_defs)

text \<open>On the other path to a 200 response the guardrails cut the summary at 800.\<close>

lemma normalize_summary_bounded:
  "normalize payload parsed = Some out \<Longrightarrow> length (updatedSummary out) \<le> 800"
  by (auto simp: normalize_def slice0_def split: option.splits json.splits)

text \<open>
  C8 as stated fails: with the environment key set, a request that carries a header key
  has its upstream call made with the environment key, on both endpoints.
\<close>

theorem env_key_wins_counterexample:
  "headers exampleRequest (js ''x-openai-api-key'') = Some (js ''sk-header'')
   \<and> translateKeyUsed exampleEnv exampleRequest = Some (js ''sk-env'')
   \<and> js ''sk-env'' \<noteq> js ''sk-header''
   \<and> headers exampleMintRequest (js ''x-elevenlabs-api-key'') = Some (js ''el-header'')
   \<and> scribeTokenPrepare exampleEnv exampleMintRequest = Inr (js ''el-env'')
   \<and> js ''el-env'' \<noteq> js ''el-header''"
  by (simp add: route_defs example_defs)

text \<open>
  C8, amended. On both endpoints a non-empty environment key is the one the upstream call
  carries, whatever the header says; the trimmed header key is used when the environment
  key is unset or empty.
\<close>

theorem api_key_precedence:
  "(OPENAI_API_KEY e = Some k \<and> k \<noteq> [] \<and> translateKeyUsed e req = Some key \<longrightarrow> key = k)
   \<and> ((OPENAI_API_KEY e = None \<or> OPENAI_API_KEY e = Some [])
        \<and> headers req (js ''x-openai-api-key'') = Some h
        \<and> translateKeyUsed e req = Some key \<longrightarrow> key = trim h)
   \<and> (ELEVENLABS_API_KEY e = Some k' \<and> k' \<noteq> [] \<longrightarrow> scribeTokenPrepare e mreq = Inr k')
   \<and> ((ELEVENLABS_API_KEY e = None \<or> ELEVENLABS_API_KEY e = Some [])
        \<and> headers mreq (js ''x-elevenlabs-api-key'') = Some h' \<and> trim h' \<noteq> []
        \<longrightarrow> scribeTokenPrepare e mreq = Inr (trim h'))"
  by (auto simp: translateKeyUsed_def translatePrepare_def getOpenAIKey_def translateCall_def
      scribeTokenPrepare_def getElevenLabsKey_def orElse_def Let_def
      split: option.splits if_splits sum.splits)

theorem api_key_precedence_witness:
  "translateKeyUsed exampleEnv exampleRequest = Some (js ''sk-env'')
   \<and> translateKeyUsed emptyEnv exampleRequest = Some (js ''sk-header'')
   \<and> scribeTokenPrepare exampleEnv exampleMintRequest = Inr (js ''el-env'')
   \<and> scribeTokenPrepare emptyEnv exampleMintRequest = Inr (js ''el-header'')"
proof -
  have u1: "translateKeyUsed exampleEnv exampleRequest = Some (js ''sk-env'')"
    and u2: "translateKeyUsed emptyEnv exampleRequest = Some (js ''sk-header'')"
    by (simp_all add: route_defs example_defs)
  have t1: "trim (js ''sk-header'') = js ''sk-header''" and t2: "trim (js ''el-header'') = js ''el-header''"
    by (simp_all add: trim_def isTrimmable_def js_def)
  have ne: "js ''sk-env'' \<noteq> []" "js ''el-env'' \<noteq> []" "js ''el-header'' \<noteq> []"
    by (simp_all add: js_def)
  have h1: "headers exampleRequest (js ''x-openai-api-key'') = Some (js ''sk-header'')"
    and h2: "headers exampleMintRequest (js ''x-elevenlabs-api-key'') = Some (js ''el-header'')"
    by (simp_all add: example_defs)
  have e1: "OPENAI_API_KEY exampleEnv = Some (js ''sk-env'')" "ELEVENLABS_API_KEY exampleEnv = Some (js ''el-env'')"
    and e2: "OPENAI_API_KEY emptyEnv = None" "ELEVENLABS_API_KEY emptyEnv = None"
    by (simp_all add: example_defs)
  from api_key_precedence[of exampleEnv "js ''sk-env''" exampleRequest "js ''sk-env''" "js ''sk-header''"
      "js ''el-env''" exampleMintRequest "js ''el-header''"] e1 ne
  have a: "scribeTokenPrepare exampleEnv exampleMintRequest = Inr (js ''el-env'')" by simp
  from api_key_precedence[of emptyEnv "js ''sk-env''" exampleRequest "js ''sk-header''" "js ''sk-header''"
      "js ''el-env''" exampleMintRequest "js ''el-header''"] e2 h1 h2 u2 t1 t2 ne
  have b: "scribeTokenPrepare emptyEnv exampleMintRequest = Inr (js ''el-header'')" by simp
  from u1 u2 a b show ?thesis by simp
qed

section \<open>Properties of the chunker\<close>

lemma bytesPerChunk_eq: "bytesPerChunk = 6400"
  by (simp add: bytesPerChunk_def targetSampleRate_def chunkMs_def)

declare sendChunks.simps [simp del]

lemma sendChunks_concat:
  "sendChunks lines st = (frames, st') \<Longrightarrow>
   concat (map audio frames) @ pendingBytes st' = pendingBytes st"
proof (induction lines st arbitrary: frames st' rule: sendChunks.induct)
  case (1 lines st)
  show ?case
  proof (cases "length (pendingBytes st) \<ge> bytesPerChunk")
    case True
    obtain fs s2 where rec: "sendChunks lines
        \<lparr> pendingBytes = drop bytesPerChunk (pendingBytes st), firstChunk = False \<rparr> = (fs, s2)"
      by (cases "sendChunks lines
        \<lparr> pendingBytes = drop bytesPerChunk (pendingBytes st), firstChunk = False \<rparr>")
    from "1.IH"[OF True refl refl rec]
    have ih: "concat (map audio fs) @ pendingBytes s2 = drop bytesPerChunk (pendingBytes st)"
      by simp
    from "1.prems" True rec have "st' = s2" and
      "concat (map audio frames) = take bytesPerChunk (pendingBytes st) @ concat (map audio fs)"
      by (auto simp: sendChunks.simps[of lines st] Let_def)
    with ih show ?thesis by simp
  next
    case False
    with "1.prems" show ?thesis by (simp add: sendChunks.simps[of lines st])
  qed
qed

lemma sendChunks_frames:
  "sendChunks lines st = (frames, st') \<Longrightarrow>
   (\<forall>f \<in> set frames. length (audio f) = bytesPerChunk) \<and> length (pendingBytes st') < bytesPerChunk"
proof (induction lines st arbitrary: frames st' rule: sendChunks.induct)
  case (1 lines st)
  show ?case
  proof (cases "length (pendingBytes st) \<ge> bytesPerChunk")
    case True
    obtain fs s2 where rec: "sendChunks lines
        \<lparr> pendingBytes = drop bytesPerChunk (pendingBytes st), firstChunk = False \<rparr> = (fs, s2)"
      by (cases "sendChunks lines
        \<lparr> pendingBytes = drop bytesPerChunk (pendingBytes st), firstChunk = False \<rparr>")
    note ih = "1.IH"[OF True refl refl rec]
    from "1.prems" True rec obtain f where "st' = s2" and "frames = f # fs"
      and "audio f = take bytesPerChunk (pendingBytes st)"
      by (auto simp: sendChunks.simps[of lines st] Let_def)
    with ih True show ?thesis by auto
  next
    case False
    with "1.prems" show ?thesis by (simp add: sendChunks.simps[of lines st])
  qed
qed

lemma tapAll_concat:
  "tapAll lines blocks st = (frames, st') \<Longrightarrow>
   concat (map audio frames) @ pendingBytes st' = pendingBytes st @ concat blocks"
proof (induction blocks arbitrary: st frames st')
  case Nil
  then show ?case by simp
next
  case (Cons u8 rest)
  obtain f1 s1 where a: "tapBytes lines u8 st = (f1, s1)" by (cases "tapBytes lines u8 st")
  obtain f2 s2 where b: "tapAll lines rest s1 = (f2, s2)" by (cases "tapAll lines rest s1")
  from Cons.prems a b have fr: "frames = f1 @ f2" and st: "st' = s2" by simp_all
  from a have "concat (map audio f1) @ pendingBytes s1 = pendingBytes st @ u8"
    using sendChunks_concat[of lines "st\<lparr>pendingBytes := pendingBytes st @ u8\<rparr>" f1 s1]
    by (simp add: tapBytes_def)
  moreover from Cons.IH[OF b] have "concat (map audio f2) @ pendingBytes s2 = pendingBytes s1 @ concat rest" .
  ultimately show ?case using fr st
    by (metis append.assoc concat.simps(2) concat_append map_append)
qed

lemma tapAll_frames:
  "tapAll lines blocks st = (frames, st') \<Longrightarrow> length (pendingBytes st) < bytesPerChunk \<Longrightarrow>
   (\<forall>f \<in> set frames. length (audio f) = bytesPerChunk) \<and> length (pendingBytes st') < bytesPerChunk"
proof (induction blocks arbitrary: st frames st')
  case Nil
  then show ?case by simp
next
  case (Cons u8 rest)
  obtain f1 s1 where a: "tapBytes lines u8 st = (f1, s1)" by (cases "tapBytes lines u8 st")
  obtain f2 s2 where b: "tapAll lines rest s1 = (f2, s2)" by (cases "tapAll lines rest s1")
  from Cons.prems a b have fr: "frames = f1 @ f2" and st: "st' = s2" by simp_all
  from a have 1: "(\<forall>f \<in> set f1. length (audio f) = bytesPerChunk) \<and> length (pendingBytes s1) < bytesPerChunk"
    using sendChunks_frames[of lines "st\<lparr>pendingBytes := pendingBytes st @ u8\<rparr>" f1 s1]
    by (simp add: tapBytes_def)
  from Cons.IH[OF b] 1 have "(\<forall>f \<in> set f2. length (audio f) = bytesPerChunk) \<and> length (pendingBytes s2) < bytesPerChunk"
    by simp
  with 1 fr st show ?case by auto
qed

lemma length_concat_uniform:
  "\<forall>x \<in> set xs. length x = n \<Longrightarrow> length (concat xs) = length xs * n"
  by (induction xs) auto

text \<open>
  C3. After any sequence of byte blocks delivered to a new chunker, the number of frames
  sent is the total number of bytes divided by 6400 (rounded down), every frame has 6400
  bytes, the pending remainder has total mod 6400 bytes, and the frames followed by the
  remainder are the blocks in order.
\<close>

theorem chunker_frames:
  assumes "tapAll lines blocks newChunker = (frames, st)"
  shows "length frames = length (concat blocks) div 6400
       \<and> (\<forall>f \<in> set frames. length (audio f) = 6400)
       \<and> length (pendingBytes st) = length (concat blocks) mod 6400
       \<and> concat (map audio frames) @ pendingBytes st = concat blocks"
proof -
  have p0: "length (pendingBytes newChunker) < bytesPerChunk"
    by (simp add: newChunker_def bytesPerChunk_eq)
  from tapAll_frames[OF assms p0]
  have fr: "\<forall>f \<in> set frames. length (audio f) = 6400" and pend: "length (pendingBytes st) < 6400"
    by (simp_all add: bytesPerChunk_eq)
  from tapAll_concat[OF assms]
  have cc: "concat (map audio frames) @ pendingBytes st = concat blocks"
    by (simp add: newChunker_def)
  from fr have "length (concat (map audio frames)) = length frames * 6400"
    using length_concat_uniform[of "map audio frames" 6400] by simp
  with cc have tot: "length (concat blocks) = length frames * 6400 + length (pendingBytes st)"
    by (metis length_append)
  from tot pend have "length frames = length (concat blocks) div 6400"
    and "length (pendingBytes st) = length (concat blocks) mod 6400"
    by simp_all
  with fr cc show ?thesis by simp
qed

theorem chunker_frames_witness:
  "tapAll [] [replicate 6399 1, [2, 3]] newChunker =
     ([\<lparr> audio = replicate 6399 1 @ [2], sampleRate = 16000, previousText = None \<rparr>],
      \<lparr> pendingBytes = [3], firstChunk = False \<rparr>)
   \<and> length [\<lparr> audio = replicate 6399 (1 :: byte) @ [2], sampleRate = 16000 :: nat, previousText = None \<rparr>]
       = length (concat [replicate 6399 (1 :: byte), [2, 3]]) div 6400
   \<and> length (replicate 6399 (1 :: byte) @ [2]) = 6400
   \<and> length [3 :: byte] = length (concat [replicate 6399 (1 :: byte), [2, 3]]) mod 6400
   \<and> (replicate 6399 1 @ [2]) @ [3 :: byte] = concat [replicate 6399 1, [2, 3]]"
proof -
  have run: "tapAll [] [replicate 6399 1, [2, 3]] newChunker =
     ([\<lparr> audio = replicate 6399 1 @ [2], sampleRate = 16000, previousText = None \<rparr>],
      \<lparr> pendingBytes = [3], firstChunk = False \<rparr>)"
    by (simp add: tapBytes_def newChunker_def sendChunks.simps bytesPerChunk_eq
        targetSampleRate_def Let_def)
  from chunker_frames[OF run] run show ?thesis by simp
qed

section \<open>Properties of the transcription hook\<close>

text \<open>
  C5 as stated fails: an event whose text is only whitespace appends nothing and leaves
  the partial transcript as it was.
\<close>

theorem blank_commit_counterexample:
  "onCommittedTranscript 1700000000000 (js ''9f3a'') 1700000000000 (Some (js ''  '')) exampleScribe
     = exampleScribe
   \<and> committed exampleScribe = []
   \<and> partialTranscript exampleScribe = js ''hel''
   \<and> js ''hel'' \<noteq> []"
  by (simp add: onCommittedTranscript_def exampleScribe_def orEmpty_def orDefault_def trim_def
      isTrimmable_def js_def)

text \<open>
  C5, amended. An event whose text is non-empty after trimming appends exactly one line to
  the committed history (the trimmed text, kind committed, the id made of the clock
  reading, a dash and the random digits, and the clock reading as timestamp) and resets
  the partial transcript to the empty string. An event whose text is missing, empty or
  only whitespace appends no line.
\<close>

theorem committed_transcript_appends:
  "(trim (orEmpty dataText) \<noteq> [] \<longrightarrow>
      committed (onCommittedTranscript now1 rnd now2 dataText st) =
        committed st @ [\<lparr> lineId = decimal now1 @ js ''-'' @ rnd,
                           lineText = trim (orEmpty dataText),
                           createdAt = now2, kind = KindCommitted \<rparr>]
      \<and> partialTranscript (onCommittedTranscript now1 rnd now2 dataText st) = [])
   \<and> (trim (orEmpty dataText) = [] \<longrightarrow>
      committed (onCommittedTranscript now1 rnd now2 dataText st) = committed st)"
  by (simp add: onCommittedTranscript_def Let_def)

lemma decimal_12: "decimal 12 = js ''12''"
  by (simp add: js_def)

theorem committed_transcript_appends_witness:
  "committed (onCommittedTranscript 12 (js ''9f3a'') 13 (Some (js '' hello '')) exampleScribe) =
     [\<lparr> lineId = js ''12-9f3a'', lineText = js ''hello'', createdAt = 13, kind = KindCommitted \<rparr>]
   \<and> partialTranscript (onCommittedTranscript 12 (js ''9f3a'') 13 (Some (js '' hello '')) exampleScribe) = []
   \<and> committed (onCommittedTranscript 12 (js ''9f3a'') 13 (Some (js ''  '')) exampleScribe) = []"
proof -
  have t1: "trim (orEmpty (Some (js '' hello ''))) = js ''hello''"
    and t2: "trim (orEmpty (Some (js ''  ''))) = []"
    by (simp_all add: orEmpty_def orDefault_def trim_def isTrimmable_def js_def)
  have ne: "js ''hello'' \<noteq> []" by (simp add: js_def)
  have d: "decimal 12 @ js ''-'' @ js ''9f3a'' = js ''12-9f3a''"
    by (simp add: decimal_12) (simp add: js_def)
  from committed_transcript_appends[of "Some (js '' hello '')" 12 "js ''9f3a''" 13 exampleScribe]
    committed_transcript_appends[of "Some (js ''  '')" 12 "js ''9f3a''" 13 exampleScribe]
    t1 t2 ne d
  show ?thesis by (simp add: exampleScribe_def)
qed

subsection \<open>Resampled length\<close>

lemma round_third: "round (real n / 3) = int ((n + 1) div 3)"
proof -
  have "real n / 3 + 1 / 2 = real (2 * n + 3) / real 6" by simp
  then have "round (real n / 3) = \<lfloor>real (2 * n + 3) / real 6\<rfloor>"
    by (simp only: round_def)
  also have "\<dots> = int ((2 * n + 3) div 6)"
    by (rule floor_divide_of_nat_eq)
  also have "(2 * n + 3) div 6 = (n + 1) div 3" by presburger
  finally show ?thesis .
qed

text \<open>
  C4 as stated fails at \<open>N = 0\<close>: the returned array has one sample, and \<open>round (0 / 3)\<close> is
  0.
\<close>

theorem downsample_length_zero_counterexample:
  "downsampleLength 0 48000 16000 = 1 \<and> round (real 0 / 3) = 0"
  by (simp add: downsampleLength_def)

text \<open>
  C4, amended. For an input of \<open>N\<close> samples at 48000 Hz resampled to 16000 Hz the returned
  array has \<open>max 1 (round (N / 3))\<close> samples: \<open>round (N / 3)\<close> when \<open>N\<close> is at least 2, and
  one sample when \<open>N\<close> is 0 or 1.
\<close>

theorem downsample_length_48k:
  "downsampleLength n 48000 16000 = nat (max 1 (round (real n / 3)))
   \<and> (2 \<le> n \<longrightarrow> int (downsampleLength n 48000 16000) = round (real n / 3))
   \<and> (n \<le> 1 \<longrightarrow> downsampleLength n 48000 16000 = 1)"
proof -
  have len: "downsampleLength n 48000 16000 = nat (max 1 (round (real n / 3)))"
    by (simp add: downsampleLength_def)
  have big: "2 \<le> n \<Longrightarrow> 1 \<le> (n + 1) div 3" by presburger
  have small: "n \<le> 1 \<Longrightarrow> (n + 1) div 3 = 0" by presburger
  from len big small show ?thesis
    by (auto simp: round_third max_def)
qed

theorem downsample_length_48k_witness:
  "downsampleLength 480 48000 16000 = 160 \<and> round (real 480 / 3) = 160
   \<and> downsampleLength 1 48000 16000 = 1"
proof -
  have "round (real 480 / 3) = 160" by (simp add: round_third)
  with downsample_length_48k[of 480] downsample_length_48k[of 1]
  show ?thesis by simp
qed

section \<open>Properties of the committed-translation effect\<close>

lemma committedEffect_cases:
  assumes a: "committedEffect h = (h', t)"
  shows "(t = None \<and> h' = h) \<or>
   (\<exists>task. t = Some task \<and> scribeCommitted h \<noteq> [] \<and> taskLine task = last (scribeCommitted h)
      \<and> lineId (last (scribeCommitted h)) \<notin> translatedIds h
      \<and> h' = h\<lparr>translatedIds := insert (lineId (last (scribeCommitted h))) (translatedIds h)\<rparr>)"
proof (cases "scribeCommitted h" rule: rev_cases)
  case Nil
  with a show ?thesis by (simp add: committedEffect_def)
next
  case (snoc ys y)
  with a show ?thesis
    by (auto simp: committedEffect_def Let_def split: if_splits)
qed

text \<open>
  C6. When the selected input language equals the selected output language and is not
  auto, the effect run on a committed line it has not seen leaves the mirror microtask and
  no request; the microtask appends a translated line whose text is the line's text
  verbatim.
\<close>

theorem mirror_same_language:
  assumes "inputLang h = targetLangPref h" and "inputLang h \<noteq> LangAuto"
    and "scribeCommitted h \<noteq> []" and "lineId (last (scribeCommitted h)) \<notin> translatedIds h"
  shows "\<exists>h'. committedEffect h = (h', Some (MirrorTask (last (scribeCommitted h))))
           \<and> isRequest (MirrorTask (last (scribeCommitted h))) = False
           \<and> translated (runTask now result (MirrorTask (last (scribeCommitted h))) h') =
               translated h @
                 [\<lparr> tId = lineId (last (scribeCommitted h)) @ js ''-t'',
                    sourceId = lineId (last (scribeCommitted h)),
                    tText = lineText (last (scribeCommitted h)), tCreatedAt = now \<rparr>]"
proof (cases "scribeCommitted h" rule: rev_cases)
  case Nil
  with assms(3) show ?thesis by simp
next
  case (snoc ys y)
  with assms show ?thesis
    by (simp add: committedEffect_def outLang_def Let_def runTask_def)
qed

lemma effectRuns_fresh:
  "effectRuns hs ids = (tasks, ids') \<Longrightarrow>
   distinct (map (\<lambda>t. lineId (taskLine t)) tasks) \<and> (\<forall>t \<in> set tasks. lineId (taskLine t) \<notin> ids)"
proof (induction hs arbitrary: ids tasks ids')
  case Nil
  then show ?case by simp
next
  case (Cons h hs)
  obtain h' t where eff: "committedEffect (h\<lparr>translatedIds := ids\<rparr>) = (h', t)"
    by (cases "committedEffect (h\<lparr>translatedIds := ids\<rparr>)")
  obtain ts ids2 where rest: "effectRuns hs (translatedIds h') = (ts, ids2)"
    by (cases "effectRuns hs (translatedIds h')")
  from Cons.IH[OF rest]
  have ih: "distinct (map (\<lambda>t. lineId (taskLine t)) ts)"
    "\<forall>t \<in> set ts. lineId (taskLine t) \<notin> translatedIds h'" by simp_all
  from Cons.prems eff rest
  have tasks: "tasks = (case t of None \<Rightarrow> ts | Some task \<Rightarrow> task # ts)" by simp
  from committedEffect_cases[OF eff] show ?case
  proof
    assume "t = None \<and> h' = h\<lparr>translatedIds := ids\<rparr>"
    with ih tasks show ?thesis by simp
  next
    assume "\<exists>task. t = Some task \<and> scribeCommitted (h\<lparr>translatedIds := ids\<rparr>) \<noteq> []
      \<and> taskLine task = last (scribeCommitted (h\<lparr>translatedIds := ids\<rparr>))
      \<and> lineId (last (scribeCommitted (h\<lparr>translatedIds := ids\<rparr>))) \<notin> translatedIds (h\<lparr>translatedIds := ids\<rparr>)
      \<and> h' = h\<lparr>translatedIds := ids\<rparr>\<lparr>translatedIds :=
            insert (lineId (last (scribeCommitted (h\<lparr>translatedIds := ids\<rparr>))))
              (translatedIds (h\<lparr>translatedIds := ids\<rparr>))\<rparr>"
    then obtain task where t: "t = Some task"
      and fresh: "lineId (taskLine task) \<notin> ids"
      and ids: "translatedIds h' = insert (lineId (taskLine task)) ids"
      by auto
    from ih(2) ids have "\<forall>x \<in> set ts. lineId (taskLine x) \<noteq> lineId (taskLine task)"
      and "\<forall>x \<in> set ts. lineId (taskLine x) \<notin> ids" by auto
    with ih(1) t tasks fresh show ?thesis by auto
  qed
qed

lemma distinct_count_le_one:
  "distinct (map f xs) \<Longrightarrow> length (filter (\<lambda>x. P x \<and> f x = i) xs) \<le> 1"
proof (induction xs)
  case Nil
  then show ?case by simp
next
  case (Cons x xs)
  show ?case
  proof (cases "f x = i")
    case True
    with Cons.prems have "\<forall>y \<in> set xs. f y \<noteq> i" by (auto simp: image_iff)
    then have "filter (\<lambda>x. P x \<and> f x = i) xs = []" by (simp add: filter_empty_conv)
    then show ?thesis by simp
  next
    case False
    with Cons show ?thesis by simp
  qed
qed

lemma committedEffect_seen:
  assumes "scribeCommitted g \<noteq> []" and "lineId (last (scribeCommitted g)) \<in> translatedIds g"
  shows "committedEffect g = (g, None)"
proof (cases "scribeCommitted g" rule: rev_cases)
  case Nil
  with assms(1) show ?thesis by simp
next
  case (snoc ys y)
  with assms(2) show ?thesis by (simp add: committedEffect_def)
qed

lemma committedEffect_records:
  assumes "committedEffect h = (h', t)" and "scribeCommitted h \<noteq> []"
  shows "lineId (last (scribeCommitted h)) \<in> translatedIds h'"
proof (cases "scribeCommitted h" rule: rev_cases)
  case Nil
  with assms(2) show ?thesis by simp
next
  case (snoc ys y)
  with assms(1) show ?thesis
    by (auto simp: committedEffect_def Let_def split: if_splits)
qed

text \<open>
  C7. Over any sequence of runs of the effect (any histories, languages and summaries),
  starting from any set of recorded ids, at most one translation request is issued for
  each line id. A run of the effect records the id of the last committed line, so a later
  run over a history with the same last line is a no-op.
\<close>

theorem one_request_per_line:
  "(effectRuns hs ids = (tasks, ids') \<longrightarrow>
      length (filter (\<lambda>t. isRequest t \<and> lineId (taskLine t) = i) tasks) \<le> 1)
   \<and> (committedEffect h = (h', t) \<and> scribeCommitted h \<noteq> [] \<and> scribeCommitted g \<noteq> []
        \<and> last (scribeCommitted g) = last (scribeCommitted h) \<and> translatedIds g = translatedIds h'
      \<longrightarrow> committedEffect g = (g, None))"
proof (intro conjI impI)
  assume "effectRuns hs ids = (tasks, ids')"
  from effectRuns_fresh[OF this] have "distinct (map (\<lambda>t. lineId (taskLine t)) tasks)" by simp
  then show "length (filter (\<lambda>t. isRequest t \<and> lineId (taskLine t) = i) tasks) \<le> 1"
    by (rule distinct_count_le_one)
next
  assume a: "committedEffect h = (h', t) \<and> scribeCommitted h \<noteq> [] \<and> scribeCommitted g \<noteq> []
        \<and> last (scribeCommitted g) = last (scribeCommitted h) \<and> translatedIds g = translatedIds h'"
  then have "lineId (last (scribeCommitted h)) \<in> translatedIds h'"
    using committedEffect_records by blast
  with a show "committedEffect g = (g, None)"
    by (intro committedEffect_seen) simp_all
qed

lemma pageRun_line_step:
  assumes nm: "\<not> (inputLang h \<noteq> LangAuto \<and> inputLang h = outLang h)"
    and fresh: "lineId l \<notin> translatedIds h"
  shows "\<exists>args h2.
      pageRun ((LineCommitted l, now, result) # rest) h =
        TranslateTask l args (runningSummary h = [] \<or> Suc (length (scribeCommitted h)) mod 4 = 0)
          # pageRun rest h2
    \<and> updateSummary args = Some (runningSummary h = [] \<or> Suc (length (scribeCommitted h)) mod 4 = 0)
    \<and> inputLang h2 = inputLang h \<and> targetLangPref h2 = targetLangPref h
    \<and> scribeCommitted h2 = scribeCommitted h @ [l]
    \<and> translatedIds h2 = insert (lineId l) (translatedIds h)
    \<and> runningSummary h2 =
        (case result of
           None \<Rightarrow> runningSummary h
         | Some r \<Rightarrow>
             if (runningSummary h = [] \<or> Suc (length (scribeCommitted h)) mod 4 = 0)
                \<and> updatedSummary r \<noteq> []
             then updatedSummary r else runningSummary h)"
proof -
  let ?f = "runningSummary h = [] \<or> Suc (length (scribeCommitted h)) mod 4 = 0"
  let ?h0 = "h\<lparr>scribeCommitted := scribeCommitted h @ [l]\<rparr>"
  let ?h1 = "?h0\<lparr>translatedIds := insert (lineId l) (translatedIds h)\<rparr>"
  let ?args = "\<lparr> sourceLang = inputLang h, targetLang = outLang h,
                    reqText = Some (lineText l), mode = Some Committed,
                    updateSummary = Some ?f,
                    summary = Some (runningSummary h),
                    recent = Some (map lineText (sliceLast 8 (scribeCommitted h @ [l]))) \<rparr>"
  let ?task = "TranslateTask l ?args ?f"
  let ?h2 = "runTask now result ?task ?h1"
  have e1: "committedEffect ?h0 = (?h1, Some ?task)"
    using nm fresh by (auto simp: committedEffect_def outLang_def Let_def split: if_splits)
  have keep: "inputLang ?h2 = inputLang h" "targetLangPref ?h2 = targetLangPref h"
    "scribeCommitted ?h2 = scribeCommitted h @ [l]"
    "translatedIds ?h2 = insert (lineId l) (translatedIds h)"
    by (simp_all add: runTask_def Let_def split: option.splits)
  have summ: "runningSummary ?h2 =
        (case result of None \<Rightarrow> runningSummary h
         | Some r \<Rightarrow> if ?f \<and> updatedSummary r \<noteq> [] then updatedSummary r else runningSummary h)"
    by (simp add: runTask_def Let_def split: option.splits)
  have e2: "committedEffect ?h2 = (?h2, None)"
    by (rule committedEffect_seen) (simp_all add: keep)
  have "pageRun ((LineCommitted l, now, result) # rest) h = ?task # pageRun rest ?h2"
    by (simp add: e1 e2)
  with keep summ show ?thesis by (intro exI[of _ ?args] exI[of _ ?h2]) simp
qed

lemma pageRun_line_flags:
  assumes "\<not> (inputLang h \<noteq> LangAuto \<and> inputLang h = outLang h)"
    and "distinct (map (\<lambda>s. lineId (fst s)) steps)"
    and "\<forall>s \<in> set steps. lineId (fst s) \<notin> translatedIds h"
    and "\<forall>i < length steps. updateFlag (pageRun (map lineStep steps) h ! i) = Some True \<longrightarrow>
           (\<exists>r. snd (snd (steps ! i)) = Some r \<and> updatedSummary r \<noteq> [])"
  shows "map updateFlag (pageRun (map lineStep steps) h) =
         map (\<lambda>i. Some ((i = 0 \<and> runningSummary h = []) \<or> (length (scribeCommitted h) + i + 1) mod 4 = 0))
           [0..<length steps]"
  using assms
proof (induction steps arbitrary: h)
  case Nil
  then show ?case by simp
next
  case (Cons s rest)
  obtain l now result where s: "s = (l, now, result)" by (cases s)
  then have ls: "lineStep s = (LineCommitted l, now, result)" by (simp add: lineStep_def)
  let ?f = "runningSummary h = [] \<or> Suc (length (scribeCommitted h)) mod 4 = 0"
  from Cons.prems(3) s have fresh: "lineId l \<notin> translatedIds h" by simp
  from pageRun_line_step[OF Cons.prems(1) fresh, of now result "map lineStep rest"]
  obtain args h2 where
    ses: "pageRun ((LineCommitted l, now, result) # map lineStep rest) h =
            TranslateTask l args ?f # pageRun (map lineStep rest) h2"
    and upd: "updateSummary args = Some ?f"
    and langs: "inputLang h2 = inputLang h" "targetLangPref h2 = targetLangPref h"
    and hist: "scribeCommitted h2 = scribeCommitted h @ [l]"
    and ids: "translatedIds h2 = insert (lineId l) (translatedIds h)"
    and summ: "runningSummary h2 =
        (case result of None \<Rightarrow> runningSummary h
         | Some r \<Rightarrow> if ?f \<and> updatedSummary r \<noteq> [] then updatedSummary r else runningSummary h)"
    by blast
  have ne: "runningSummary h2 \<noteq> []"
  proof (cases ?f)
    case True
    with Cons.prems(4)[rule_format, of 0] s ls ses upd
    obtain r where "result = Some r" "updatedSummary r \<noteq> []" by auto
    with True summ show ?thesis by simp
  next
    case False
    with summ show ?thesis by (simp split: option.splits)
  qed
  have p1: "\<not> (inputLang h2 \<noteq> LangAuto \<and> inputLang h2 = outLang h2)"
    using Cons.prems(1) langs by (auto simp: outLang_def split: if_splits)
  have p2: "distinct (map (\<lambda>s. lineId (fst s)) rest)" using Cons.prems(2) by simp
  have p3: "\<forall>s \<in> set rest. lineId (fst s) \<notin> translatedIds h2"
    using Cons.prems(2,3) s ids by (force simp: image_iff)
  have p4: "\<forall>i < length rest. updateFlag (pageRun (map lineStep rest) h2 ! i) = Some True \<longrightarrow>
           (\<exists>r. snd (snd (rest ! i)) = Some r \<and> updatedSummary r \<noteq> [])"
  proof (intro allI impI)
    fix i assume "i < length rest" and "updateFlag (pageRun (map lineStep rest) h2 ! i) = Some True"
    with Cons.prems(4)[rule_format, of "Suc i"] s ls ses
    show "\<exists>r. snd (snd (rest ! i)) = Some r \<and> updatedSummary r \<noteq> []" by simp
  qed
  from Cons.IH[OF p1 p2 p3 p4] ne hist
  have ih: "map updateFlag (pageRun (map lineStep rest) h2) =
      map (\<lambda>i. Some ((length (scribeCommitted h) + Suc i + 1) mod 4 = 0)) [0..<length rest]"
    by simp
  have "[0..<length (s # rest)] = 0 # map Suc [0..<length rest]"
    by (simp add: upt_conv_Cons map_Suc_upt del: upt_Suc)
  then show ?case using ih ses s ls upd
    by (simp add: comp_def del: upt_Suc)
qed

text \<open>
  C9 as stated fails. It speaks of any run in which every line is processed in commit
  order and every summary-updating response brings a non-empty summary before the next
  line. In a run where \<open>Clear summary\<close> is pressed after the first line, the request for
  line 2 has \<open>updateSummary\<close> set; in a run where \<open>Clear all\<close> is pressed after the second
  line, the request for line 4 has it unset.
\<close>

theorem cleared_summary_counterexample:
  "map (\<lambda>t. (lineId (taskLine t), updateFlag t))
     (pageRun [(LineCommitted (exampleLine 1), 1, Some exampleReply),
               (ClearSummary, 2, None),
               (LineCommitted (exampleLine 2), 3, Some exampleReply)]
        (newHome LangKo LangEn))
   = [(js ''1-a'', Some True), (js ''2-a'', Some True)]
   \<and> updatedSummary exampleReply \<noteq> []
   \<and> map (\<lambda>t. (lineId (taskLine t), updateFlag t))
     (pageRun [(LineCommitted (exampleLine 1), 1, Some exampleReply),
               (LineCommitted (exampleLine 2), 2, Some exampleReply),
               (ClearAll, 3, None),
               (LineCommitted (exampleLine 3), 4, Some exampleReply),
               (LineCommitted (exampleLine 4), 5, Some exampleReply)]
        (newHome LangKo LangEn))
   = [(js ''1-a'', Some True), (js ''2-a'', Some False), (js ''3-a'', Some False),
      (js ''4-a'', Some False)]"
  by (simp add: exampleLine_def exampleReply_def newHome_def committedEffect_def outLang_def
      runTask_def Let_def sliceLast_def js_def trim_def isTrimmable_def)

text \<open>
  C9, amended. In a run that starts on a freshly loaded page (no history, no summary,
  nothing recorded), in which the languages call for translation (the input is auto or
  differs from the output), only committed lines arrive (the summary is not cleared,
  \<open>Clear all\<close> is not pressed and no language is changed), every line has an id of its own
  and is settled before the next one arrives, and every response to a summary-updating
  request carries a non-empty summary, the effect issues exactly one request per line, and
  the request for line \<open>i\<close> (counted from 1) has \<open>updateSummary\<close> set exactly when \<open>i\<close> is 1
  or a multiple of 4.
\<close>

theorem summary_update_schedule:
  assumes "\<not> (inL \<noteq> LangAuto \<and> inL = (if outL = LangAuto then LangEn else outL))"
    and "distinct (map (\<lambda>s. lineId (fst s)) steps)"
    and "\<forall>i < length steps.
           updateFlag (pageRun (map lineStep steps) (newHome inL outL) ! i) = Some True \<longrightarrow>
           (\<exists>r. snd (snd (steps ! i)) = Some r \<and> updatedSummary r \<noteq> [])"
  shows "map updateFlag (pageRun (map lineStep steps) (newHome inL outL)) =
         map (\<lambda>i. Some (i = 1 \<or> i mod 4 = 0)) [1..<Suc (length steps)]"
proof -
  let ?h = "newHome inL outL"
  have a1: "\<not> (inputLang ?h \<noteq> LangAuto \<and> inputLang ?h = outLang ?h)"
    using assms(1) by (auto simp: newHome_def outLang_def split: if_splits)
  have a3: "\<forall>s \<in> set steps. lineId (fst s) \<notin> translatedIds ?h"
    by (simp add: newHome_def)
  from pageRun_line_flags[OF a1 assms(2) a3 assms(3)]
  have "map updateFlag (pageRun (map lineStep steps) ?h) =
        map (\<lambda>i. Some (i = 0 \<or> (i + 1) mod 4 = 0)) [0..<length steps]"
    by (simp add: newHome_def)
  also have "\<dots> = map (\<lambda>i. Some (i = 1 \<or> i mod 4 = 0)) (map Suc [0..<length steps])"
    by (simp add: comp_def)
  also have "map Suc [0..<length steps] = [1..<Suc (length steps)]"
    by (simp add: map_Suc_upt del: upt_Suc)
  finally show ?thesis .
qed

lemmas home_defs = exampleLine_def exampleReply_def exampleSteps_def exampleHome_def newHome_def
  committedEffect_def outLang_def runTask_def Let_def sliceLast_def js_def trim_def isTrimmable_def

theorem mirror_same_language_witness:
  "committedEffect (exampleHome LangEn) =
     ((exampleHome LangEn)\<lparr>translatedIds := {js ''1-a''}\<rparr>, Some (MirrorTask (exampleLine 1)))
   \<and> translated (runTask 7 None (MirrorTask (exampleLine 1))
        ((exampleHome LangEn)\<lparr>translatedIds := {js ''1-a''}\<rparr>)) =
       [\<lparr> tId = js ''1-a-t'', sourceId = js ''1-a'', tText = js ''Hello'', tCreatedAt = 7 \<rparr>]"
proof -
  have a: "inputLang (exampleHome LangEn) = targetLangPref (exampleHome LangEn)"
    and b: "inputLang (exampleHome LangEn) \<noteq> LangAuto"
    and c: "scribeCommitted (exampleHome LangEn) \<noteq> []"
    and d: "lineId (last (scribeCommitted (exampleHome LangEn))) \<notin> translatedIds (exampleHome LangEn)"
    by (simp_all add: exampleHome_def newHome_def)
  from mirror_same_language[OF a b c d, of 7 None]
  show ?thesis by (simp add: home_defs)
qed

theorem one_request_per_line_witness:
  "effectRuns [exampleHome LangKo, exampleHome LangKo,
               (exampleHome LangKo)\<lparr>runningSummary := js ''greeting''\<rparr>] {} =
     ([TranslateTask (exampleLine 1)
         \<lparr> sourceLang = LangKo, targetLang = LangEn, reqText = Some (js ''Hello''),
           mode = Some Committed, updateSummary = Some True, summary = Some [],
           recent = Some [js ''Hello''] \<rparr> True], {js ''1-a''})
   \<and> length (filter (\<lambda>t. isRequest t \<and> lineId (taskLine t) = js ''1-a'')
        [TranslateTask (exampleLine 1)
         \<lparr> sourceLang = LangKo, targetLang = LangEn, reqText = Some (js ''Hello''),
           mode = Some Committed, updateSummary = Some True, summary = Some [],
           recent = Some [js ''Hello''] \<rparr> True]) = 1
   \<and> committedEffect ((exampleHome LangKo)\<lparr>runningSummary := js ''greeting'',
          translatedIds := {js ''1-a''}\<rparr>) =
       ((exampleHome LangKo)\<lparr>runningSummary := js ''greeting'', translatedIds := {js ''1-a''}\<rparr>, None)"
proof -
  let ?task = "TranslateTask (exampleLine 1)
         \<lparr> sourceLang = LangKo, targetLang = LangEn, reqText = Some (js ''Hello''),
           mode = Some Committed, updateSummary = Some True, summary = Some [],
           recent = Some [js ''Hello''] \<rparr> True"
  let ?g = "(exampleHome LangKo)\<lparr>runningSummary := js ''greeting'', translatedIds := {js ''1-a''}\<rparr>"
  have run: "effectRuns [exampleHome LangKo, exampleHome LangKo,
               (exampleHome LangKo)\<lparr>runningSummary := js ''greeting''\<rparr>] {} = ([?task], {js ''1-a''})"
    by (simp add: home_defs)
  have eff: "committedEffect (exampleHome LangKo) =
      ((exampleHome LangKo)\<lparr>translatedIds := {js ''1-a''}\<rparr>, Some ?task)"
    by (simp add: home_defs)
  have cnt: "length (filter (\<lambda>t. isRequest t \<and> lineId (taskLine t) = js ''1-a'') [?task]) = 1"
    by (simp add: home_defs)
  have pre: "scribeCommitted (exampleHome LangKo) \<noteq> []" "scribeCommitted ?g \<noteq> []"
    "last (scribeCommitted ?g) = last (scribeCommitted (exampleHome LangKo))"
    "translatedIds ?g = translatedIds ((exampleHome LangKo)\<lparr>translatedIds := {js ''1-a''}\<rparr>)"
    by (simp_all add: exampleHome_def newHome_def)
  from one_request_per_line[of "[exampleHome LangKo, exampleHome LangKo,
               (exampleHome LangKo)\<lparr>runningSummary := js ''greeting''\<rparr>]" "{}" "[?task]" "{js ''1-a''}"
      "js ''1-a''" "exampleHome LangKo" "(exampleHome LangKo)\<lparr>translatedIds := {js ''1-a''}\<rparr>"
      "Some ?task" ?g] run eff pre
  have "committedEffect ?g = (?g, None)" by blast
  with run cnt show ?thesis by simp
qed

theorem summary_update_schedule_witness:
  "map updateFlag (pageRun (map lineStep exampleSteps) (newHome LangKo LangEn)) =
     [Some True, Some False, Some False, Some True, Some False]"
proof -
  have a: "\<not> (LangKo \<noteq> LangAuto \<and> LangKo = (if LangEn = LangAuto then LangEn else LangEn))"
    by simp
  have b: "distinct (map (\<lambda>s. lineId (fst s)) exampleSteps)"
    by (simp add: exampleSteps_def exampleLine_def js_def)
  have "\<forall>s \<in> set exampleSteps. \<exists>r. snd (snd s) = Some r \<and> updatedSummary r \<noteq> []"
    by (simp add: exampleSteps_def exampleReply_def js_def)
  then have c: "\<forall>i < length exampleSteps.
      updateFlag (pageRun (map lineStep exampleSteps) (newHome LangKo LangEn) ! i) = Some True \<longrightarrow>
        (\<exists>r. snd (snd (exampleSteps ! i)) = Some r \<and> updatedSummary r \<noteq> [])"
    by (meson nth_mem)
  have len: "length exampleSteps = 5" by (simp add: exampleSteps_def)
  have "[1..<Suc 5] = [1, 2, 3, 4, 5]" by (simp add: upt_rec)
  with summary_update_schedule[OF a b c] len show ?thesis by simp
qed

section \<open>Properties of the resampler\<close>










text \<open>Whatever the runtime's largest length is, some positive rates exceed it.\<close>

lemma allocation_fails_beyond_any_limit:
  "downsampleFloat32ToInt16PCM Fin maxLen [Fin 0] (Fin 1) (Fin (2 * (real maxLen + 1)))
     = Inl RangeError"
proof -
  define K :: int where "K = 2 * (int maxLen + 1)"
  have k: "2 * (real maxLen + 1) = of_int K" by (simp add: K_def)
  have ki: "1 < K" "int maxLen < K" by (simp_all add: K_def)
  then have pos: "(1 :: real) < of_int K" by linarith
  have rl: "requestedLength Fin (length [Fin 0 :: number]) (Fin 1) (Fin (of_int K)) = Fin (of_int K)"
    using pos by (simp add: requestedLength_def numEq_def mathMax_def Let_def)
  have tr: "truncToZero (of_int K) = K"
    by (simp add: truncToZero_def)
  have "newInt16Array maxLen (Fin (of_int K)) = Inl RangeError"
    using ki by (simp add: tr)
  with rl show ?thesis
    by (simp only: k downsampleFloat32ToInt16PCM_def sum.case)
qed


text \<open>
  \<open>downsampleLength\<close> is the length of the returned array when the quotients are exact.
\<close>

lemma downsampleLength_exact:
  assumes "0 < a" and "0 < b"
    and "newInt16Array maxLen (requestedLength Fin n (Fin a) (Fin b)) = Inr k"
  shows "k = downsampleLength n a b"
proof (cases "b = a")
  case True
  with assms(3) show ?thesis
    by (simp add: requestedLength_def numEq_def downsampleLength_def truncToZero_def split: if_splits)
next
  case False
  have t: "truncToZero (of_int m) = m" "truncToZero 1 = 1" for m by (simp_all add: truncToZero_def)
  from False assms show ?thesis
    by (auto simp: requestedLength_def numEq_def downsampleLength_def Let_def mathMax_def t
        max_def split: if_splits)
qed

end
